theory Spec2Isabelle
  imports Complex_Main "HOL-Library.Sublist"
begin

section \<open>JavaScript values\<close>

text \<open>
  The task list is read with \<^verbatim>\<open>JSON.parse\<close>, so a raw task is a JSON value. Numbers are
  rationals: every finite double is one, and the code only compares a number with 80 and
  tests it for zero (a JSON number too large for a double, which parses to \<^verbatim>\<open>Infinity\<close>,
  is not modelled). \<open>JUndefined\<close> is what reading a missing property gives. Strings are
  lists of 8-bit characters, read as the code units U+0000 to U+00FF.
\<close>

datatype jsval =
    JUndefined
  | JNull
  | JBool bool
  | JNum rat
  | JStr string
  | JArr "jsval list"
  | JObj "(string \<times> jsval) list"

datatype error = TypeError

text \<open>ToBoolean: what \<^verbatim>\<open>||\<close>, \<^verbatim>\<open>&&\<close>, \<^verbatim>\<open>!\<close> and \<^verbatim>\<open>if\<close> test.\<close>

fun truthy :: "jsval \<Rightarrow> bool" where
  "truthy JUndefined = False"
| "truthy JNull = False"
| "truthy (JBool b) = b"
| "truthy (JNum n) = (n \<noteq> 0)"
| "truthy (JStr s) = (s \<noteq> [])"
| "truthy (JArr xs) = True"
| "truthy (JObj kvs) = True"

text \<open>\<^verbatim>\<open>a || b\<close>: the left operand when it is truthy, the right one otherwise.\<close>

definition js_or :: "jsval \<Rightarrow> jsval \<Rightarrow> jsval" where
  "js_or a b = (if truthy a then a else b)"

text \<open>
  Reading one of the task properties \<^verbatim>\<open>task.k\<close> of a value that is neither \<^verbatim>\<open>null\<close> nor
  \<^verbatim>\<open>undefined\<close>: an object gives the stored value, or \<^verbatim>\<open>undefined\<close> when it has no such
  property; a number, a string, a boolean or an array has none of the task properties.
  Reading a property of \<^verbatim>\<open>null\<close> or \<^verbatim>\<open>undefined\<close> throws a TypeError, which the
  callers below check first with \<open>isNullish\<close>.
\<close>

fun getProp :: "jsval \<Rightarrow> string \<Rightarrow> jsval" where
  "getProp (JObj kvs) k = (case map_of kvs k of Some v \<Rightarrow> v | None \<Rightarrow> JUndefined)"
| "getProp v k = JUndefined"

definition isNullish :: "jsval \<Rightarrow> bool" where
  "isNullish v = (v = JUndefined \<or> v = JNull)"

section \<open>The injected clock\<close>

text \<open>
  \<^verbatim>\<open>Date.now()\<close> and \<^verbatim>\<open>new Date().toISOString()\<close> are the two readings of the clock that
  \<^verbatim>\<open>normalizeTask\<close> takes; they are passed in.
\<close>

record clock =
  dateNow :: nat
  isoNow :: string

text \<open>\<^verbatim>\<open>Number.prototype.toString\<close> on a non-negative integer: its decimal digits.\<close>

definition digitChar :: "nat \<Rightarrow> char" where
  "digitChar d = ''0123456789'' ! d"

fun toString :: "nat \<Rightarrow> string" where
  "toString n = (if n < 10 then [digitChar n] else toString (n div 10) @ [digitChar (n mod 10)])"

declare toString.simps [simp del]

section \<open>normalizeTask\<close>

text \<open>
  Lines 49 to 59 of \<^verbatim>\<open>normalizeTask\<close>: an explicit status \<^verbatim>\<open>'complete'\<close> or
  \<^verbatim>\<open>'incomplete'\<close> is taken as it is; otherwise a numeric progress above 80 means complete;
  otherwise the task is incomplete.
\<close>

definition taskStatus :: "jsval \<Rightarrow> string" where
  "taskStatus task =
     (if getProp task ''status'' = JStr ''complete'' then ''complete''
      else if getProp task ''status'' = JStr ''incomplete'' then ''incomplete''
      else (case getProp task ''progress'' of
              JNum p \<Rightarrow> (if p > 80 then ''complete'' else ''incomplete'')
            | _ \<Rightarrow> ''incomplete''))"

text \<open>
  \<^verbatim>\<open>normalizeTask\<close> of TaskFilter.jsx. The first thing it does is to read \<^verbatim>\<open>task.status\<close>,
  which throws on \<^verbatim>\<open>null\<close> and \<^verbatim>\<open>undefined\<close>; on every other value all reads succeed and
  the object literal of lines 62 to 72 is returned.
\<close>

definition normalizeTask :: "clock \<Rightarrow> jsval \<Rightarrow> error + jsval" where
  "normalizeTask c task =
     (if isNullish task then Inl TypeError
      else
        let status = taskStatus task
        in Inr (JObj
          [(''id'', js_or (getProp task ''id'')
                      (js_or (getProp task ''_id'') (JStr (toString (dateNow c))))),
           (''title'', js_or (getProp task ''title'') (JStr ''Untitled Task'')),
           (''description'', js_or (getProp task ''description'') (JStr '''')),
           (''status'', JStr status),
           (''priority'', js_or (getProp task ''priority'') (JStr ''medium'')),
           (''dueDate'', js_or (getProp task ''dueDate'')
                           (js_or (getProp task ''deadline'') JNull)),
           (''createdAt'', js_or (getProp task ''createdAt'') (JStr (isoNow c))),
           (''progress'', js_or (getProp task ''progress'')
                            (if status = ''complete'' then JNum 100 else JNum 0)),
           (''assignedTo'', js_or (getProp task ''assignedTo'') (JStr ''Unassigned''))]))"

section \<open>Strings\<close>

text \<open>
  A JavaScript string is a sequence of UTF-16 code units. A character of the model is the
  code unit of the same number, so the strings of the model are the texts over U+0000 to
  U+00FF, each code point one code unit. On these texts the three methods are as follows.
  \<^verbatim>\<open>String.prototype.toLowerCase\<close> works code unit by code unit: it lowers the letters A to Z
  and the letters U+00C0 to U+00DE other than the multiplication sign U+00D7, each to the
  code unit 32 above, and leaves every other code unit as it is. \<^verbatim>\<open>trim\<close> strips tab, line
  feed, vertical tab, form feed, carriage return, space and the no-break space U+00A0 from
  both ends. \<^verbatim>\<open>includes\<close> looks for the needle at every position of the text. Text with a
  code point above U+00FF is outside the model.
\<close>

definition toLowerChar :: "char \<Rightarrow> char" where
  "toLowerChar ch =
     (case map_of
             (zip (''ABCDEFGHIJKLMNOPQRSTUVWXYZ'' @
                   [CHR 0xC0, CHR 0xC1, CHR 0xC2, CHR 0xC3, CHR 0xC4, CHR 0xC5, CHR 0xC6,
                    CHR 0xC7, CHR 0xC8, CHR 0xC9, CHR 0xCA, CHR 0xCB, CHR 0xCC, CHR 0xCD,
                    CHR 0xCE, CHR 0xCF, CHR 0xD0, CHR 0xD1, CHR 0xD2, CHR 0xD3, CHR 0xD4,
                    CHR 0xD5, CHR 0xD6, CHR 0xD8, CHR 0xD9, CHR 0xDA, CHR 0xDB, CHR 0xDC,
                    CHR 0xDD, CHR 0xDE])
                  (''abcdefghijklmnopqrstuvwxyz'' @
                   [CHR 0xE0, CHR 0xE1, CHR 0xE2, CHR 0xE3, CHR 0xE4, CHR 0xE5, CHR 0xE6,
                    CHR 0xE7, CHR 0xE8, CHR 0xE9, CHR 0xEA, CHR 0xEB, CHR 0xEC, CHR 0xED,
                    CHR 0xEE, CHR 0xEF, CHR 0xF0, CHR 0xF1, CHR 0xF2, CHR 0xF3, CHR 0xF4,
                    CHR 0xF5, CHR 0xF6, CHR 0xF8, CHR 0xF9, CHR 0xFA, CHR 0xFB, CHR 0xFC,
                    CHR 0xFD, CHR 0xFE]))
             ch of
        Some l \<Rightarrow> l
      | None \<Rightarrow> ch)"

definition toLowerCase :: "string \<Rightarrow> string" where
  "toLowerCase s = map toLowerChar s"

definition isWhiteSpace :: "char \<Rightarrow> bool" where
  "isWhiteSpace ch =
     (ch \<in> set [CHR 0x09, CHR 0x0A, CHR 0x0B, CHR 0x0C, CHR 0x0D, CHR '' '', CHR 0xA0])"

definition trim :: "string \<Rightarrow> string" where
  "trim s = rev (dropWhile isWhiteSpace (rev (dropWhile isWhiteSpace s)))"

fun includesStr :: "string \<Rightarrow> string \<Rightarrow> bool" where
  "includesStr [] needle = (needle = [])"
| "includesStr (ch # rest) needle = (prefix needle (ch # rest) \<or> includesStr rest needle)"

section \<open>Array methods with a callback that may throw\<close>

text \<open>
  \<^verbatim>\<open>Array.prototype.filter\<close> calls the predicate on the elements in order; the first call
  that throws ends the whole filter with that error.
\<close>

fun filterE :: "('a \<Rightarrow> error + bool) \<Rightarrow> 'a list \<Rightarrow> error + 'a list" where
  "filterE p [] = Inr []"
| "filterE p (x # xs) =
     (case p x of
        Inl e \<Rightarrow> Inl e
      | Inr b \<Rightarrow>
          (case filterE p xs of
             Inl e \<Rightarrow> Inl e
           | Inr ys \<Rightarrow> Inr (if b then x # ys else ys)))"

section \<open>updateCounts\<close>

record counts =
  all :: nat
  complete :: nat
  incomplete :: nat

text \<open>The callback \<^verbatim>\<open>task => task.status === s\<close>; it throws when the element is \<^verbatim>\<open>null\<close>.\<close>

definition statusIs :: "string \<Rightarrow> jsval \<Rightarrow> error + bool" where
  "statusIs s task =
     (if isNullish task then Inl TypeError else Inr (getProp task ''status'' = JStr s))"

text \<open>\<^verbatim>\<open>updateCounts\<close>: the value it passes to \<^verbatim>\<open>setCounts\<close>.\<close>

definition updateCounts :: "jsval list \<Rightarrow> error + counts" where
  "updateCounts taskList =
     (case filterE (statusIs ''complete'') taskList of
        Inl e \<Rightarrow> Inl e
      | Inr completeTasks \<Rightarrow>
          (case filterE (statusIs ''incomplete'') taskList of
             Inl e \<Rightarrow> Inl e
           | Inr incompleteTasks \<Rightarrow>
               Inr \<lparr>all = length taskList,
                    complete = length completeTasks,
                    incomplete = length incompleteTasks\<rparr>))"

section \<open>applyFilters\<close>

text \<open>
  The filter settings come from the two select boxes and the search input, so the three
  fields are strings.
\<close>

record filterSettings =
  status :: string
  search :: string
  priority :: string

text \<open>
  The priority callback
  \<^verbatim>\<open>task.priority && task.priority.toLowerCase() === filterSettings.priority.toLowerCase()\<close>:
  a falsy priority gives false; a truthy priority that is not a string has no
  \<^verbatim>\<open>toLowerCase\<close> method, and the call throws.
\<close>

definition priorityIs :: "string \<Rightarrow> jsval \<Rightarrow> error + bool" where
  "priorityIs p task =
     (if isNullish task then Inl TypeError
      else if \<not> truthy (getProp task ''priority'') then Inr False
      else (case getProp task ''priority'' of
              JStr s \<Rightarrow> Inr (toLowerCase s = toLowerCase p)
            | _ \<Rightarrow> Inl TypeError))"

text \<open>\<^verbatim>\<open>v.toLowerCase().includes(searchTerm)\<close>: it throws unless \<open>v\<close> is a string.\<close>

definition lowerIncludes :: "jsval \<Rightarrow> string \<Rightarrow> error + bool" where
  "lowerIncludes v searchTerm =
     (case v of
        JStr s \<Rightarrow> Inr (includesStr (toLowerCase s) searchTerm)
      | _ \<Rightarrow> Inl TypeError)"

text \<open>
  The search callback. \<^verbatim>\<open>||\<close> evaluates its right operand only when the left one is false,
  and \<^verbatim>\<open>&&\<close> only when the left one is truthy.
\<close>

definition matchesSearch :: "string \<Rightarrow> jsval \<Rightarrow> error + bool" where
  "matchesSearch searchTerm task =
     (if isNullish task then Inl TypeError
      else (case lowerIncludes (getProp task ''title'') searchTerm of
              Inl e \<Rightarrow> Inl e
            | Inr True \<Rightarrow> Inr True
            | Inr False \<Rightarrow>
                (case lowerIncludes (getProp task ''description'') searchTerm of
                   Inl e \<Rightarrow> Inl e
                 | Inr True \<Rightarrow> Inr True
                 | Inr False \<Rightarrow>
                     (if \<not> truthy (getProp task ''assignedTo'') then Inr False
                      else lowerIncludes (getProp task ''assignedTo'') searchTerm))))"

text \<open>The three \<^verbatim>\<open>if\<close> blocks of \<^verbatim>\<open>applyFilters\<close>, in the order of the source.\<close>

definition statusStage :: "filterSettings \<Rightarrow> jsval list \<Rightarrow> error + jsval list" where
  "statusStage filterSettings result =
     (if status filterSettings \<noteq> ''all''
      then filterE (statusIs (status filterSettings)) result
      else Inr result)"

definition priorityStage :: "filterSettings \<Rightarrow> jsval list \<Rightarrow> error + jsval list" where
  "priorityStage filterSettings result =
     (if priority filterSettings \<noteq> ''all''
      then filterE (priorityIs (priority filterSettings)) result
      else Inr result)"

definition searchStage :: "filterSettings \<Rightarrow> jsval list \<Rightarrow> error + jsval list" where
  "searchStage filterSettings result =
     (if trim (search filterSettings) \<noteq> []
      then filterE (matchesSearch (trim (toLowerCase (search filterSettings)))) result
      else Inr result)"

text \<open>\<^verbatim>\<open>applyFilters\<close>: the list it passes to \<^verbatim>\<open>setFilteredTasks\<close>.\<close>

definition applyFilters :: "jsval list \<Rightarrow> filterSettings \<Rightarrow> error + jsval list" where
  "applyFilters taskList filterSettings =
     (case statusStage filterSettings taskList of
        Inl e \<Rightarrow> Inl e
      | Inr result1 \<Rightarrow>
          (case priorityStage filterSettings result1 of
             Inl e \<Rightarrow> Inl e
           | Inr result2 \<Rightarrow> searchStage filterSettings result2))"

section \<open>isOverdue\<close>

text \<open>
  A Date is its time value: milliseconds since the epoch, or \<open>None\<close> for an invalid date.
  The Date constructor \<open>newDate\<close> and the rendering \<open>toDateString\<close> of the platform are
  parameters, and so is the current time \<open>nowT\<close>, which every \<^verbatim>\<open>new Date()\<close> of one call
  is taken to read alike. \<^verbatim>\<open><\<close> on two dates compares the time values and is false
  when one of them is invalid.
\<close>

type_synonym date = "int option"

definition dateLess :: "date \<Rightarrow> date \<Rightarrow> bool" where
  "dateLess a b = (case (a, b) of (Some x, Some y) \<Rightarrow> x < y | _ \<Rightarrow> False)"

definition isOverdue :: "(jsval \<Rightarrow> date) \<Rightarrow> (date \<Rightarrow> 's) \<Rightarrow> int \<Rightarrow> jsval \<Rightarrow> bool" where
  "isOverdue newDate toDateString nowT dueDate =
     (if \<not> truthy dueDate then False
      else dateLess (newDate dueDate) (Some nowT) \<and>
           toDateString (newDate dueDate) \<noteq> toDateString (Some nowT))"

text \<open>
  The local calendar day of a time value: the day number of the local time
  \<open>t + tza t\<close>, where \<open>tza\<close> is the offset of the local time zone at \<open>t\<close> in milliseconds.
\<close>

definition msPerDay :: int where
  "msPerDay = 86400000"

definition localDay :: "(int \<Rightarrow> int) \<Rightarrow> int \<Rightarrow> int" where
  "localDay tza t = (t + tza t) div msPerDay"

section \<open>The canonical form and the words of the specification\<close>

text \<open>
  The canonical task of the specification has strings for its title, description,
  priority and assignee. \<^verbatim>\<open>normalizeTask\<close> does not make them so (it keeps any truthy
  value), and the callbacks of \<^verbatim>\<open>applyFilters\<close> throw on a truthy value that is not a
  string; the two predicates say which tasks the callbacks accept.
\<close>

definition isStr :: "jsval \<Rightarrow> bool" where
  "isStr v = (case v of JStr s \<Rightarrow> True | _ \<Rightarrow> False)"


definition searchable :: "jsval \<Rightarrow> bool" where
  "searchable task =
     (isStr (getProp task ''title'') \<and> isStr (getProp task ''description'') \<and>
      isStr (getProp task ''assignedTo''))"

definition canonicalText :: "jsval \<Rightarrow> bool" where
  "canonicalText task = (searchable task \<and> isStr (getProp task ''priority''))"



section \<open>Examples\<close>

text \<open>A reading of the clock for the examples: 14 November 2023, 22:13:20 UTC.\<close>

definition clock0 :: clock where
  "clock0 = \<lparr>dateNow = 1700000000000, isoNow = ''2023-11-14T22:13:20.000Z''\<rparr>"

text \<open>
  The sample tasks of lines 103 to 131, as \<^verbatim>\<open>loadTasks\<close> builds them at that reading of the
  clock, and the list \<^verbatim>\<open>normalizedSampleTasks\<close> that line 133 makes of them.
\<close>

definition sampleTasks :: "jsval list" where
  "sampleTasks =
     [JObj [(''_id'', JStr ''1''),
            (''title'', JStr ''Complete project documentation''),
            (''description'', JStr ''Write comprehensive documentation for the new feature''),
            (''status'', JStr ''incomplete''),
            (''priority'', JStr ''high''),
            (''dueDate'', JStr ''2023-11-15T22:13:20.000Z''),
            (''createdAt'', JStr ''2023-11-14T22:13:20.000Z'')],
      JObj [(''_id'', JStr ''2''),
            (''title'', JStr ''Fix navigation bug''),
            (''description'', JStr ''Address the issue with sidebar navigation on mobile devices''),
            (''status'', JStr ''complete''),
            (''priority'', JStr ''medium''),
            (''dueDate'', JStr ''2023-11-14T22:13:20.000Z''),
            (''createdAt'', JStr ''2023-11-13T22:13:20.000Z'')],
      JObj [(''_id'', JStr ''3''),
            (''title'', JStr ''Implement user feedback''),
            (''description'', JStr ''Add the user feedback form to the dashboard''),
            (''status'', JStr ''incomplete''),
            (''priority'', JStr ''low''),
            (''dueDate'', JStr ''2023-11-16T22:13:20.000Z''),
            (''createdAt'', JStr ''2023-11-12T22:13:20.000Z'')]]"

definition normalizedSampleTasks :: "jsval list" where
  "normalizedSampleTasks =
     [JObj [(''id'', JStr ''1''),
            (''title'', JStr ''Complete project documentation''),
            (''description'', JStr ''Write comprehensive documentation for the new feature''),
            (''status'', JStr ''incomplete''),
            (''priority'', JStr ''high''),
            (''dueDate'', JStr ''2023-11-15T22:13:20.000Z''),
            (''createdAt'', JStr ''2023-11-14T22:13:20.000Z''),
            (''progress'', JNum 0),
            (''assignedTo'', JStr ''Unassigned'')],
      JObj [(''id'', JStr ''2''),
            (''title'', JStr ''Fix navigation bug''),
            (''description'', JStr ''Address the issue with sidebar navigation on mobile devices''),
            (''status'', JStr ''complete''),
            (''priority'', JStr ''medium''),
            (''dueDate'', JStr ''2023-11-14T22:13:20.000Z''),
            (''createdAt'', JStr ''2023-11-13T22:13:20.000Z''),
            (''progress'', JNum 100),
            (''assignedTo'', JStr ''Unassigned'')],
      JObj [(''id'', JStr ''3''),
            (''title'', JStr ''Implement user feedback''),
            (''description'', JStr ''Add the user feedback form to the dashboard''),
            (''status'', JStr ''incomplete''),
            (''priority'', JStr ''low''),
            (''dueDate'', JStr ''2023-11-16T22:13:20.000Z''),
            (''createdAt'', JStr ''2023-11-12T22:13:20.000Z''),
            (''progress'', JNum 0),
            (''assignedTo'', JStr ''Unassigned'')]]"

text \<open>
  For the example of the due date: a local zone with no offset, a rendering that prints
  the number of the local day, and a Date constructor that knows the one due date of the
  example, 1 January 2024, 08:00, which in that zone is 1704096000000 milliseconds after
  the epoch.
\<close>

definition utc :: "int \<Rightarrow> int" where
  "utc = (\<lambda>t. 0)"

definition dayText :: "(int \<Rightarrow> int) \<Rightarrow> date \<Rightarrow> int option" where
  "dayText tza d = map_option (localDay tza) d"

definition exampleDate :: "jsval \<Rightarrow> date" where
  "exampleDate v = (if v = JStr ''2024-01-01T08:00'' then Some 1704096000000 else None)"

section \<open>Properties of normalizeTask\<close>

lemma toString_clock0: "toString (dateNow clock0) = ''1700000000000''"
  by (simp add: clock0_def toString.simps digitChar_def)

lemma getProp_defined_not_nullish: "getProp task k \<noteq> JUndefined \<Longrightarrow> \<not> isNullish task"
  by (cases task) (auto simp: isNullish_def)

lemma taskStatus_cases: "taskStatus task = ''complete'' \<or> taskStatus task = ''incomplete''"
  by (simp add: taskStatus_def split: jsval.split)

lemma normalizeTask_fields:
  assumes "normalizeTask c task = Inr t"
  shows "getProp t ''id'' = js_or (getProp task ''id'')
                      (js_or (getProp task ''_id'') (JStr (toString (dateNow c))))"
    and "getProp t ''_id'' = JUndefined"
    and "getProp t ''title'' = js_or (getProp task ''title'') (JStr ''Untitled Task'')"
    and "getProp t ''description'' = js_or (getProp task ''description'') (JStr '''')"
    and "getProp t ''status'' = JStr (taskStatus task)"
    and "getProp t ''priority'' = js_or (getProp task ''priority'') (JStr ''medium'')"
    and "getProp t ''dueDate'' = js_or (getProp task ''dueDate'')
                           (js_or (getProp task ''deadline'') JNull)"
    and "getProp t ''deadline'' = JUndefined"
    and "getProp t ''createdAt'' = js_or (getProp task ''createdAt'') (JStr (isoNow c))"
    and "getProp t ''progress'' = js_or (getProp task ''progress'')
                            (if taskStatus task = ''complete'' then JNum 100 else JNum 0)"
    and "getProp t ''assignedTo'' = js_or (getProp task ''assignedTo'') (JStr ''Unassigned'')"
    and "\<not> isNullish t"
  using assms by (auto simp: normalizeTask_def Let_def isNullish_def split: if_splits)

lemma normalizeTask_returns: "\<not> isNullish task \<Longrightarrow> \<exists>t. normalizeTask c task = Inr t"
  by (simp add: normalizeTask_def Let_def)

lemma normalizeTask_example:
  "normalizeTask clock0 (JObj kvs) = Inr (JObj
     [(''id'', js_or (getProp (JObj kvs) ''id'')
                      (js_or (getProp (JObj kvs) ''_id'') (JStr ''1700000000000''))),
      (''title'', js_or (getProp (JObj kvs) ''title'') (JStr ''Untitled Task'')),
      (''description'', js_or (getProp (JObj kvs) ''description'') (JStr '''')),
      (''status'', JStr (taskStatus (JObj kvs))),
      (''priority'', js_or (getProp (JObj kvs) ''priority'') (JStr ''medium'')),
      (''dueDate'', js_or (getProp (JObj kvs) ''dueDate'')
                           (js_or (getProp (JObj kvs) ''deadline'') JNull)),
      (''createdAt'', js_or (getProp (JObj kvs) ''createdAt'') (JStr ''2023-11-14T22:13:20.000Z'')),
      (''progress'', js_or (getProp (JObj kvs) ''progress'')
                            (if taskStatus (JObj kvs) = ''complete'' then JNum 100 else JNum 0)),
      (''assignedTo'', js_or (getProp (JObj kvs) ''assignedTo'') (JStr ''Unassigned''))])"
  unfolding normalizeTask_def Let_def toString_clock0
  by (simp add: isNullish_def clock0_def)

text \<open>
  Claim C1. A raw task with a numeric progress \<open>p\<close> and no status property is normalized,
  and its status is \<^verbatim>\<open>'complete'\<close> exactly when \<open>p > 80\<close>, \<^verbatim>\<open>'incomplete'\<close> otherwise. The
  witness is the boundary: 80 gives incomplete, 81 gives complete.
\<close>

theorem normalizeTask_progress_threshold:
  assumes "getProp task ''status'' = JUndefined" and "getProp task ''progress'' = JNum p"
  shows "\<exists>t. normalizeTask c task = Inr t \<and>
           (getProp t ''status'' = JStr ''complete'' \<longleftrightarrow> p > 80) \<and>
           (getProp t ''status'' = JStr ''incomplete'' \<longleftrightarrow> \<not> p > 80)"
proof -
  from assms(2) have "\<not> isNullish task"
    by (intro getProp_defined_not_nullish [of task "''progress''"]) simp
  then obtain t where t: "normalizeTask c task = Inr t"
    using normalizeTask_returns by blast
  have "taskStatus task = (if p > 80 then ''complete'' else ''incomplete'')"
    using assms by (simp add: taskStatus_def)
  with normalizeTask_fields(5) [OF t] t show ?thesis by auto
qed

theorem normalizeTask_progress_threshold_witness:
  "(\<exists>t. normalizeTask clock0 (JObj [(''title'', JStr ''Report''), (''progress'', JNum 80)]) = Inr t \<and>
        getProp t ''status'' = JStr ''incomplete'') \<and>
   (\<exists>t. normalizeTask clock0 (JObj [(''title'', JStr ''Report''), (''progress'', JNum 81)]) = Inr t \<and>
        getProp t ''status'' = JStr ''complete'')"
  using normalizeTask_progress_threshold
          [of "JObj [(''title'', JStr ''Report''), (''progress'', JNum 80)]" 80 clock0]
        normalizeTask_progress_threshold
          [of "JObj [(''title'', JStr ''Report''), (''progress'', JNum 81)]" 81 clock0]
  by auto

text \<open>
  Claim C2, as stated, fails: a status property that is neither \<^verbatim>\<open>'complete'\<close> nor
  \<^verbatim>\<open>'incomplete'\<close> is passed over by the two comparisons of lines 52 and 54, and the
  progress decides. Two records with the same status \<^verbatim>\<open>'pending'\<close> and the progress 90 and
  10 get different statuses.
\<close>

theorem explicit_status_counterexample:
  "normalizeTask clock0 (JObj [(''status'', JStr ''pending''), (''progress'', JNum 90)]) =
     Inr (JObj [(''id'', JStr ''1700000000000''), (''title'', JStr ''Untitled Task''),
                (''description'', JStr ''''), (''status'', JStr ''complete''),
                (''priority'', JStr ''medium''), (''dueDate'', JNull),
                (''createdAt'', JStr ''2023-11-14T22:13:20.000Z''), (''progress'', JNum 90),
                (''assignedTo'', JStr ''Unassigned'')]) \<and>
   normalizeTask clock0 (JObj [(''status'', JStr ''pending''), (''progress'', JNum 10)]) =
     Inr (JObj [(''id'', JStr ''1700000000000''), (''title'', JStr ''Untitled Task''),
                (''description'', JStr ''''), (''status'', JStr ''incomplete''),
                (''priority'', JStr ''medium''), (''dueDate'', JNull),
                (''createdAt'', JStr ''2023-11-14T22:13:20.000Z''), (''progress'', JNum 10),
                (''assignedTo'', JStr ''Unassigned'')])"
  by (simp add: normalizeTask_example taskStatus_def js_or_def)

text \<open>
  Claim C2, amended. A status property that is exactly \<^verbatim>\<open>'complete'\<close> or \<^verbatim>\<open>'incomplete'\<close> is
  the normalized status, whatever the progress property holds; with any other status
  value, a numeric progress \<open>p\<close> decides by \<open>p > 80\<close>.
\<close>

theorem recognized_status_wins:
  "(getProp task ''status'' = JStr s \<and> (s = ''complete'' \<or> s = ''incomplete'') \<longrightarrow>
      (\<exists>t. normalizeTask c task = Inr t \<and> getProp t ''status'' = JStr s)) \<and>
   (getProp task ''status'' \<noteq> JStr ''complete'' \<and> getProp task ''status'' \<noteq> JStr ''incomplete'' \<and>
    getProp task ''progress'' = JNum p \<longrightarrow>
      (\<exists>t. normalizeTask c task = Inr t \<and>
           getProp t ''status'' = JStr (if p > 80 then ''complete'' else ''incomplete'')))"
proof (intro conjI impI)
  assume a: "getProp task ''status'' = JStr s \<and> (s = ''complete'' \<or> s = ''incomplete'')"
  then have "\<not> isNullish task"
    by (intro getProp_defined_not_nullish [of task "''status''"]) simp
  then obtain t where t: "normalizeTask c task = Inr t"
    using normalizeTask_returns by blast
  have "taskStatus task = s"
    using a by (auto simp: taskStatus_def)
  with normalizeTask_fields(5) [OF t] t
  show "\<exists>t. normalizeTask c task = Inr t \<and> getProp t ''status'' = JStr s" by auto
next
  assume a: "getProp task ''status'' \<noteq> JStr ''complete'' \<and>
    getProp task ''status'' \<noteq> JStr ''incomplete'' \<and> getProp task ''progress'' = JNum p"
  then have "\<not> isNullish task"
    by (intro getProp_defined_not_nullish [of task "''progress''"]) simp
  then obtain t where t: "normalizeTask c task = Inr t"
    using normalizeTask_returns by blast
  have "taskStatus task = (if p > 80 then ''complete'' else ''incomplete'')"
    using a by (simp add: taskStatus_def)
  with normalizeTask_fields(5) [OF t] t
  show "\<exists>t. normalizeTask c task = Inr t \<and>
           getProp t ''status'' = JStr (if p > 80 then ''complete'' else ''incomplete'')"
    by auto
qed

theorem recognized_status_wins_witness:
  "(\<exists>t. normalizeTask clock0 (JObj [(''status'', JStr ''incomplete''), (''progress'', JNum 95)]) = Inr t \<and>
        getProp t ''status'' = JStr ''incomplete'') \<and>
   (\<exists>t. normalizeTask clock0 (JObj [(''status'', JStr ''complete''), (''progress'', JNum 5)]) = Inr t \<and>
        getProp t ''status'' = JStr ''complete'') \<and>
   (\<exists>t. normalizeTask clock0 (JObj [(''status'', JStr ''pending''), (''progress'', JNum 90)]) = Inr t \<and>
        getProp t ''status'' = JStr ''complete'')"
  using recognized_status_wins
          [of "JObj [(''status'', JStr ''incomplete''), (''progress'', JNum 95)]" "''incomplete''" clock0 95]
        recognized_status_wins
          [of "JObj [(''status'', JStr ''complete''), (''progress'', JNum 5)]" "''complete''" clock0 5]
        recognized_status_wins
          [of "JObj [(''status'', JStr ''pending''), (''progress'', JNum 90)]" "''pending''" clock0 90]
  by simp

text \<open>A second pass reads back what the first one wrote.\<close>

lemma taskStatus_normalized:
  assumes "normalizeTask c task = Inr t"
  shows "taskStatus t = taskStatus task"
  using taskStatus_cases [of task]
  by (auto simp: taskStatus_def [of t] normalizeTask_fields(5) [OF assms])

lemma js_or_idem_right: "js_or (js_or a b) b = js_or a b"
  by (simp add: js_or_def)

lemma js_or_id_again:
  "js_or (js_or a (js_or b g)) (js_or JUndefined g) = js_or a (js_or b g)"
  by (simp add: js_or_def)

lemma normalizeTask_again:
  assumes "normalizeTask c task = Inr t"
  shows "normalizeTask c t = Inr t"
proof -
  note f = normalizeTask_fields [OF assms]
  have "normalizeTask c t = Inr (JObj
          [(''id'', js_or (getProp task ''id'')
                      (js_or (getProp task ''_id'') (JStr (toString (dateNow c))))),
           (''title'', js_or (getProp task ''title'') (JStr ''Untitled Task'')),
           (''description'', js_or (getProp task ''description'') (JStr '''')),
           (''status'', JStr (taskStatus task)),
           (''priority'', js_or (getProp task ''priority'') (JStr ''medium'')),
           (''dueDate'', js_or (getProp task ''dueDate'')
                           (js_or (getProp task ''deadline'') JNull)),
           (''createdAt'', js_or (getProp task ''createdAt'') (JStr (isoNow c))),
           (''progress'', js_or (getProp task ''progress'')
                            (if taskStatus task = ''complete'' then JNum 100 else JNum 0)),
           (''assignedTo'', js_or (getProp task ''assignedTo'') (JStr ''Unassigned''))])"
    unfolding normalizeTask_def [of c t] Let_def f(1-11) taskStatus_normalized [OF assms]
      js_or_idem_right js_or_id_again
    using f(12) by simp
  also have "\<dots> = normalizeTask c task"
    using assms by (simp add: normalizeTask_def Let_def split: if_splits)
  finally show ?thesis using assms by simp
qed

text \<open>
  Claim C3. With the clock held fixed, normalizing the result of a normalization returns
  it unchanged, every property included.
\<close>

theorem normalizeTask_idempotent:
  "\<exists>t. normalizeTask c (JObj kvs) = Inr t \<and> normalizeTask c t = Inr t"
proof -
  obtain t where t: "normalizeTask c (JObj kvs) = Inr t"
    using normalizeTask_returns [of "JObj kvs" c] by (auto simp: isNullish_def)
  with normalizeTask_again [OF t] show ?thesis by blast
qed

text \<open>
  Claim C9, as stated, fails: line 67 keeps every truthy priority as it is, so the
  unrecognized value \<^verbatim>\<open>'urgent'\<close> survives.
\<close>

theorem unrecognized_priority_counterexample:
  "normalizeTask clock0 (JObj [(''title'', JStr ''Deploy''), (''priority'', JStr ''urgent'')]) =
     Inr (JObj [(''id'', JStr ''1700000000000''), (''title'', JStr ''Deploy''),
                (''description'', JStr ''''), (''status'', JStr ''incomplete''),
                (''priority'', JStr ''urgent''), (''dueDate'', JNull),
                (''createdAt'', JStr ''2023-11-14T22:13:20.000Z''), (''progress'', JNum 0),
                (''assignedTo'', JStr ''Unassigned'')])"
  by (simp add: normalizeTask_example taskStatus_def js_or_def)

text \<open>
  Claim C9, amended. A priority that is absent or falsy becomes \<^verbatim>\<open>'medium'\<close>; every other
  priority value is kept unchanged.
\<close>

theorem priority_default:
  "(\<not> truthy (getProp (JObj kvs) ''priority'') \<longrightarrow>
      (\<exists>t. normalizeTask c (JObj kvs) = Inr t \<and> getProp t ''priority'' = JStr ''medium'')) \<and>
   (truthy (getProp (JObj kvs) ''priority'') \<longrightarrow>
      (\<exists>t. normalizeTask c (JObj kvs) = Inr t \<and>
           getProp t ''priority'' = getProp (JObj kvs) ''priority''))"
proof -
  obtain t where t: "normalizeTask c (JObj kvs) = Inr t"
    using normalizeTask_returns [of "JObj kvs" c] by (auto simp: isNullish_def)
  from normalizeTask_fields(6) [OF t] t show ?thesis
    by (auto simp: js_or_def)
qed

theorem priority_default_witness:
  "(\<exists>t. normalizeTask clock0 (JObj [(''title'', JStr ''Deploy'')]) = Inr t \<and>
        getProp t ''priority'' = JStr ''medium'') \<and>
   (\<exists>t. normalizeTask clock0 (JObj [(''title'', JStr ''Deploy''), (''priority'', JNull)]) = Inr t \<and>
        getProp t ''priority'' = JStr ''medium'') \<and>
   (\<exists>t. normalizeTask clock0 (JObj [(''title'', JStr ''Deploy''), (''priority'', JStr ''high'')]) = Inr t \<and>
        getProp t ''priority'' = JStr ''high'')"
  using priority_default [of "[(''title'', JStr ''Deploy'')]" clock0]
        priority_default [of "[(''title'', JStr ''Deploy''), (''priority'', JNull)]" clock0]
        priority_default [of "[(''title'', JStr ''Deploy''), (''priority'', JStr ''high'')]" clock0]
  by simp

text \<open>
  Claim C10. With the explicit status \<^verbatim>\<open>'complete'\<close> and the progress 0, the normalized
  progress is 100: the zero is falsy and line 70 replaces it.
\<close>

theorem zero_progress_overwritten:
  assumes "getProp task ''status'' = JStr ''complete''" and "getProp task ''progress'' = JNum 0"
  shows "\<exists>t. normalizeTask c task = Inr t \<and> getProp t ''progress'' = JNum 100"
proof -
  from assms(2) have "\<not> isNullish task"
    by (intro getProp_defined_not_nullish [of task "''progress''"]) simp
  then obtain t where t: "normalizeTask c task = Inr t"
    using normalizeTask_returns by blast
  have "taskStatus task = ''complete''"
    using assms(1) by (simp add: taskStatus_def)
  with normalizeTask_fields(10) [OF t] assms(2) t show ?thesis
    by (auto simp: js_or_def)
qed

theorem zero_progress_overwritten_witness:
  "normalizeTask clock0
     (JObj [(''_id'', JStr ''7''), (''status'', JStr ''complete''), (''progress'', JNum 0)]) =
   Inr (JObj [(''id'', JStr ''7''), (''title'', JStr ''Untitled Task''),
              (''description'', JStr ''''), (''status'', JStr ''complete''),
              (''priority'', JStr ''medium''), (''dueDate'', JNull),
              (''createdAt'', JStr ''2023-11-14T22:13:20.000Z''), (''progress'', JNum 100),
              (''assignedTo'', JStr ''Unassigned'')])"
  using zero_progress_overwritten
    [of "JObj [(''_id'', JStr ''7''), (''status'', JStr ''complete''), (''progress'', JNum 0)]" clock0]
  by (simp add: normalizeTask_example taskStatus_def js_or_def)

section \<open>Properties of the filters\<close>

lemma sample_normalized:
  "list_all2 (\<lambda>r t. normalizeTask clock0 r = Inr t) sampleTasks normalizedSampleTasks"
  by (simp add: sampleTasks_def normalizedSampleTasks_def normalizeTask_example
        taskStatus_def js_or_def)

lemma filterE_Inr:
  "filterE p xs = Inr ys \<Longrightarrow> ys = filter (\<lambda>x. p x = Inr True) xs"
  by (induction xs arbitrary: ys) (auto split: sum.splits if_splits)

lemma filterE_returns:
  "list_all (\<lambda>x. \<exists>b. p x = Inr b) xs \<Longrightarrow> filterE p xs = Inr (filter (\<lambda>x. p x = Inr True) xs)"
  by (induction xs) auto

lemma statusIs_True: "statusIs s t = Inr True \<longleftrightarrow> \<not> isNullish t \<and> getProp t ''status'' = JStr s"
  by (simp add: statusIs_def)

lemma filterE_statusIs:
  assumes "list_all (\<lambda>t. \<not> isNullish t) xs"
  shows "filterE (statusIs s) xs = Inr (filter (\<lambda>t. getProp t ''status'' = JStr s) xs)"
proof -
  have "list_all (\<lambda>t. \<exists>b. statusIs s t = Inr b) xs"
    using assms by (simp add: list_all_iff statusIs_def)
  then have "filterE (statusIs s) xs = Inr (filter (\<lambda>t. statusIs s t = Inr True) xs)"
    by (rule filterE_returns)
  also have "filter (\<lambda>t. statusIs s t = Inr True) xs = filter (\<lambda>t. getProp t ''status'' = JStr s) xs"
    using assms by (intro filter_cong) (auto simp: list_all_iff statusIs_True)
  finally show ?thesis .
qed

lemma normalized_status:
  assumes "normalizeTask c r = Inr t"
  shows "\<not> isNullish t"
    and "getProp t ''status'' = JStr ''complete'' \<or> getProp t ''status'' = JStr ''incomplete''"
    and "\<not> (getProp t ''status'' = JStr ''complete'' \<and> getProp t ''status'' = JStr ''incomplete'')"
  using normalizeTask_fields(5,12) [OF assms] taskStatus_cases [of r] by auto

text \<open>
  Claim C6. On a list of normalized tasks \<^verbatim>\<open>updateCounts\<close> returns, \<open>all\<close> is the length of
  the list, and \<open>complete\<close> and \<open>incomplete\<close> add up to \<open>all\<close>. The witness is the sample
  list: three tasks, one complete, two incomplete.
\<close>

theorem counts_partition:
  assumes "list_all2 (\<lambda>cr t. normalizeTask (fst cr) (snd cr) = Inr t) crs tasks"
  shows "\<exists>n. updateCounts tasks = Inr n \<and> all n = length tasks \<and>
              complete n + incomplete n = all n"
proof -
  have each: "\<exists>c r. normalizeTask c r = Inr t" if "t \<in> set tasks" for t
    using assms that by (fastforce simp: list_all2_conv_all_nth in_set_conv_nth)
  have obj: "list_all (\<lambda>t. \<not> isNullish t) tasks"
    using each normalized_status(1) by (fastforce simp: list_all_iff)
  have compl: "filter (\<lambda>t. getProp t ''status'' = JStr ''incomplete'') tasks =
               filter (\<lambda>t. \<not> getProp t ''status'' = JStr ''complete'') tasks"
  proof (rule filter_cong [OF refl])
    fix t assume "t \<in> set tasks"
    then obtain c r where "normalizeTask c r = Inr t" using each by blast
    from normalized_status(2,3) [OF this]
    show "(getProp t ''status'' = JStr ''incomplete'') = (\<not> getProp t ''status'' = JStr ''complete'')"
      by blast
  qed
  have "updateCounts tasks =
          Inr \<lparr>all = length tasks,
               complete = length (filter (\<lambda>t. getProp t ''status'' = JStr ''complete'') tasks),
               incomplete = length (filter (\<lambda>t. \<not> getProp t ''status'' = JStr ''complete'') tasks)\<rparr>"
    by (simp add: updateCounts_def filterE_statusIs [OF obj] compl)
  then show ?thesis
    by (simp add: sum_length_filter_compl)
qed

theorem counts_partition_witness:
  "updateCounts normalizedSampleTasks = Inr \<lparr>all = 3, complete = 1, incomplete = 2\<rparr>"
proof -
  have "list_all2 (\<lambda>cr t. normalizeTask (fst cr) (snd cr) = Inr t)
          (map (Pair clock0) sampleTasks) normalizedSampleTasks"
    using sample_normalized by (simp add: list_all2_map1)
  from counts_partition [OF this]
  show ?thesis
    by (simp add: updateCounts_def normalizedSampleTasks_def statusIs_def isNullish_def)
qed

text \<open>
  Claim C7. With the default settings none of the three blocks runs, and the list comes
  back as it is.
\<close>

theorem applyFilters_default_identity:
  "applyFilters tasks \<lparr>status = ''all'', search = '''', priority = ''all''\<rparr> = Inr tasks"
  by (simp add: applyFilters_def statusStage_def priorityStage_def searchStage_def trim_def)

lemma filterE_subseq: "filterE p xs = Inr ys \<Longrightarrow> subseq ys xs"
  using filterE_Inr [of p xs ys] by simp

lemma filterE_returns_some:
  "list_all (\<lambda>x. \<exists>b. p x = Inr b) xs \<Longrightarrow> \<exists>ys. filterE p xs = Inr ys"
  using filterE_returns [of p xs] by simp

lemma statusStage_subseq: "statusStage fs xs = Inr ys \<Longrightarrow> subseq ys xs"
  by (auto simp: statusStage_def filterE_subseq split: if_splits)

lemma priorityStage_subseq: "priorityStage fs xs = Inr ys \<Longrightarrow> subseq ys xs"
  by (auto simp: priorityStage_def filterE_subseq split: if_splits)

lemma searchStage_subseq: "searchStage fs xs = Inr ys \<Longrightarrow> subseq ys xs"
  by (auto simp: searchStage_def filterE_subseq split: if_splits)

lemma applyFilters_stages:
  assumes "applyFilters tasks fs = Inr res"
  obtains r1 r2 where "statusStage fs tasks = Inr r1" and "priorityStage fs r1 = Inr r2"
    and "searchStage fs r2 = Inr res"
  using assms by (auto simp: applyFilters_def split: sum.splits)

lemma applyFilters_subseq:
  assumes "applyFilters tasks fs = Inr res"
  shows "subseq res tasks"
proof -
  from assms obtain r1 r2 where "statusStage fs tasks = Inr r1"
    and "priorityStage fs r1 = Inr r2" and "searchStage fs r2 = Inr res"
    by (rule applyFilters_stages)
  then have "subseq r1 tasks" and "subseq r2 r1" and "subseq res r2"
    by (simp_all add: statusStage_subseq priorityStage_subseq searchStage_subseq)
  then show ?thesis
    by (meson subseq_order.order_trans)
qed

lemma statusStage_only:
  assumes "statusStage fs tasks = Inr r1" and "status fs \<noteq> ''all''"
  shows "list_all (\<lambda>t. getProp t ''status'' = JStr (status fs)) r1"
proof -
  from assms have "r1 = filter (\<lambda>t. statusIs (status fs) t = Inr True) tasks"
    by (simp add: statusStage_def filterE_Inr)
  then show ?thesis
    by (simp add: list_all_iff statusIs_True)
qed

lemma list_all_subseq: "subseq ys xs \<Longrightarrow> list_all P xs \<Longrightarrow> list_all P ys"
  by (auto simp: list_all_iff dest: list_emb_set)

lemma applyFilters_status_only:
  assumes "applyFilters tasks fs = Inr res" and "status fs \<noteq> ''all''"
  shows "list_all (\<lambda>t. getProp t ''status'' = JStr (status fs)) res"
proof -
  from assms(1) obtain r1 r2 where 1: "statusStage fs tasks = Inr r1"
    and 2: "priorityStage fs r1 = Inr r2" and 3: "searchStage fs r2 = Inr res"
    by (rule applyFilters_stages)
  have "subseq res r1"
    using priorityStage_subseq [OF 2] searchStage_subseq [OF 3]
    by (meson subseq_order.order_trans)
  then show ?thesis
    using statusStage_only [OF 1 assms(2)] by (rule list_all_subseq)
qed

lemma priorityIs_returns:
  "isStr (getProp t ''priority'') \<Longrightarrow> \<exists>b. priorityIs p t = Inr b"
  by (cases "getProp t ''priority''") (auto simp: priorityIs_def isStr_def isNullish_def)

lemma matchesSearch_returns:
  "searchable t \<Longrightarrow> \<exists>b. matchesSearch q t = Inr b"
  by (cases "getProp t ''title''"; cases "getProp t ''description''";
      cases "getProp t ''assignedTo''")
     (auto simp: matchesSearch_def lowerIncludes_def searchable_def isStr_def isNullish_def
           split: bool.splits)

lemma searchable_not_nullish: "searchable t \<Longrightarrow> \<not> isNullish t"
  by (auto simp: searchable_def isStr_def isNullish_def)

lemma statusStage_returns:
  assumes "list_all (\<lambda>t. \<not> isNullish t) xs"
  shows "\<exists>ys. statusStage fs xs = Inr ys"
  by (cases "status fs = ''all''") (simp_all add: statusStage_def filterE_statusIs [OF assms])

lemma priorityStage_returns:
  assumes "list_all (\<lambda>t. isStr (getProp t ''priority'')) xs"
  shows "\<exists>ys. priorityStage fs xs = Inr ys"
proof (cases "priority fs = ''all''")
  case True
  then show ?thesis by (simp add: priorityStage_def)
next
  case False
  have "list_all (\<lambda>t. \<exists>b. priorityIs (priority fs) t = Inr b) xs"
    using assms by (auto simp: list_all_iff priorityIs_returns)
  from filterE_returns_some [OF this] False show ?thesis
    by (simp add: priorityStage_def)
qed

lemma searchStage_returns:
  assumes "list_all searchable xs"
  shows "\<exists>ys. searchStage fs xs = Inr ys"
proof (cases "trim (search fs) = []")
  case True
  then show ?thesis by (simp add: searchStage_def)
next
  case False
  have "list_all (\<lambda>t. \<exists>b. matchesSearch (trim (toLowerCase (search fs))) t = Inr b) xs"
    using assms by (auto simp: list_all_iff matchesSearch_returns)
  from filterE_returns_some [OF this] False show ?thesis
    by (simp add: searchStage_def)
qed

lemma applyFilters_returns:
  assumes "list_all canonicalText tasks"
  shows "\<exists>res. applyFilters tasks fs = Inr res"
proof -
  have "list_all (\<lambda>t. \<not> isNullish t) tasks"
    using assms by (auto simp: list_all_iff canonicalText_def searchable_not_nullish)
  then obtain r1 where 1: "statusStage fs tasks = Inr r1"
    using statusStage_returns by blast
  have c1: "list_all canonicalText r1"
    using statusStage_subseq [OF 1] assms by (rule list_all_subseq)
  then have "list_all (\<lambda>t. isStr (getProp t ''priority'')) r1"
    by (auto simp: list_all_iff canonicalText_def)
  then obtain r2 where 2: "priorityStage fs r1 = Inr r2"
    using priorityStage_returns by blast
  have "list_all canonicalText r2"
    using priorityStage_subseq [OF 2] c1 by (rule list_all_subseq)
  then have "list_all searchable r2"
    by (auto simp: list_all_iff canonicalText_def)
  then obtain r3 where 3: "searchStage fs r2 = Inr r3"
    using searchStage_returns by blast
  from 1 2 3 show ?thesis
    by (simp add: applyFilters_def)
qed

text \<open>
  Claim C8. With status \<^verbatim>\<open>'complete'\<close> and the other two settings at their defaults, the
  result is exactly the tasks whose status is \<^verbatim>\<open>'complete'\<close>, in their order. For every
  combination of settings, the filter returns on a list of canonical tasks, and whatever
  it returns is a subsequence of the input (a subset in the order of the input) that
  holds only tasks of the selected status.
\<close>

theorem status_filter_complete:
  "(list_all (\<lambda>t. \<not> isNullish t) tasks \<longrightarrow>
      applyFilters tasks \<lparr>status = ''complete'', search = '''', priority = ''all''\<rparr> =
        Inr (filter (\<lambda>t. getProp t ''status'' = JStr ''complete'') tasks)) \<and>
   (list_all canonicalText tasks \<longrightarrow> (\<exists>res. applyFilters tasks fs = Inr res)) \<and>
   (applyFilters tasks fs = Inr res \<longrightarrow>
      subseq res tasks \<and>
      (status fs = ''complete'' \<longrightarrow>
         list_all (\<lambda>t. getProp t ''status'' = JStr ''complete'') res))"
proof (intro conjI impI)
  assume "list_all (\<lambda>t. \<not> isNullish t) tasks"
  then show "applyFilters tasks \<lparr>status = ''complete'', search = '''', priority = ''all''\<rparr> =
        Inr (filter (\<lambda>t. getProp t ''status'' = JStr ''complete'') tasks)"
    by (simp add: applyFilters_def statusStage_def priorityStage_def searchStage_def trim_def
          filterE_statusIs)
next
  assume "list_all canonicalText tasks"
  then show "\<exists>res. applyFilters tasks fs = Inr res"
    by (rule applyFilters_returns)
next
  assume "applyFilters tasks fs = Inr res"
  then show "subseq res tasks"
    by (rule applyFilters_subseq)
next
  assume "applyFilters tasks fs = Inr res" and "status fs = ''complete''"
  then show "list_all (\<lambda>t. getProp t ''status'' = JStr ''complete'') res"
    using applyFilters_status_only [of tasks fs res] by simp
qed

lemma sample_canonical: "list_all canonicalText normalizedSampleTasks"
  by (simp add: normalizedSampleTasks_def canonicalText_def searchable_def isStr_def)

lemma sample_objects: "list_all (\<lambda>t. \<not> isNullish t) normalizedSampleTasks"
  by (simp add: normalizedSampleTasks_def isNullish_def)

lemma sample_complete_nav:
  "applyFilters normalizedSampleTasks
     \<lparr>status = ''complete'', search = ''NAV'', priority = ''Medium''\<rparr> =
   Inr [normalizedSampleTasks ! 1]"
  by (simp add: applyFilters_def statusStage_def priorityStage_def searchStage_def
        normalizedSampleTasks_def statusIs_def priorityIs_def matchesSearch_def
        lowerIncludes_def isNullish_def trim_def isWhiteSpace_def toLowerCase_def
        toLowerChar_def)

theorem status_filter_complete_witness:
  "applyFilters normalizedSampleTasks
     \<lparr>status = ''complete'', search = '''', priority = ''all''\<rparr> =
     Inr [normalizedSampleTasks ! 1] \<and>
   applyFilters normalizedSampleTasks
     \<lparr>status = ''complete'', search = ''NAV'', priority = ''Medium''\<rparr> =
     Inr [normalizedSampleTasks ! 1] \<and>
   subseq [normalizedSampleTasks ! 1] normalizedSampleTasks \<and>
   getProp (normalizedSampleTasks ! 1) ''status'' = JStr ''complete''"
  using status_filter_complete
          [of normalizedSampleTasks
              "\<lparr>status = ''complete'', search = ''NAV'', priority = ''Medium''\<rparr>"
              "[normalizedSampleTasks ! 1]"]
        sample_canonical sample_objects sample_complete_nav
  by (simp add: normalizedSampleTasks_def)

section \<open>Properties of the search\<close>















section \<open>Properties of isOverdue\<close>

lemma normalized_dueDate:
  assumes "normalizeTask c r = Inr t"
  shows "getProp t ''dueDate'' = JNull \<or> truthy (getProp t ''dueDate'')"
  using normalizeTask_fields(7) [OF assms] by (auto simp: js_or_def)

text \<open>
  Claim C5. Let the rendering \<open>toDateString\<close> give two valid dates the same text exactly
  when they fall on the same local day. Then \<^verbatim>\<open>isOverdue\<close> is true exactly when the due
  date is present (truthy; on a normalized task: not \<^verbatim>\<open>null\<close>), is a valid date strictly
  before now, and is not on the local day of now. The witness is the example of the
  specification: due at 08:00, not overdue at 20:00 of that day, overdue at 00:01 of the
  next.
\<close>

theorem isOverdue_same_day_grace:
  assumes "\<forall>a b. (toDateString (Some a) = toDateString (Some b)) =
                 (localDay tza a = localDay tza b)"
  shows "(isOverdue newDate toDateString nowT dueDate \<longleftrightarrow>
            truthy dueDate \<and>
            (\<exists>d. newDate dueDate = Some d \<and> d < nowT \<and> localDay tza d \<noteq> localDay tza nowT)) \<and>
         (normalizeTask c r = Inr t \<longrightarrow>
            (isOverdue newDate toDateString nowT (getProp t ''dueDate'') \<longleftrightarrow>
               getProp t ''dueDate'' \<noteq> JNull \<and>
               (\<exists>d. newDate (getProp t ''dueDate'') = Some d \<and> d < nowT \<and>
                    localDay tza d \<noteq> localDay tza nowT)))"
proof -
  have general: "isOverdue newDate toDateString nowT v \<longleftrightarrow>
            truthy v \<and>
            (\<exists>d. newDate v = Some d \<and> d < nowT \<and> localDay tza d \<noteq> localDay tza nowT)" for v
  proof (cases "newDate v")
    case None
    then show ?thesis by (simp add: isOverdue_def dateLess_def)
  next
    case (Some d)
    with assms show ?thesis by (simp add: isOverdue_def dateLess_def)
  qed
  have "getProp t ''dueDate'' \<noteq> JNull \<longleftrightarrow> truthy (getProp t ''dueDate'')"
    if "normalizeTask c r = Inr t"
    using normalized_dueDate [OF that] by auto
  with general show ?thesis by simp
qed

theorem isOverdue_same_day_grace_witness:
  "isOverdue exampleDate (dayText utc) 1704139200000 (JStr ''2024-01-01T08:00'') = False \<and>
   isOverdue exampleDate (dayText utc) 1704153660000 (JStr ''2024-01-01T08:00'') = True \<and>
   localDay utc 1704096000000 = 19723 \<and> localDay utc 1704139200000 = 19723 \<and>
   localDay utc 1704153660000 = 19724"
proof -
  have r: "\<forall>a b. (dayText utc (Some a) = dayText utc (Some b)) = (localDay utc a = localDay utc b)"
    by (simp add: dayText_def)
  from isOverdue_same_day_grace
         [OF r, THEN conjunct1, of exampleDate 1704139200000 "JStr ''2024-01-01T08:00''"]
       isOverdue_same_day_grace
         [OF r, THEN conjunct1, of exampleDate 1704153660000 "JStr ''2024-01-01T08:00''"]
  show ?thesis
    by (simp add: exampleDate_def localDay_def utc_def msPerDay_def)
qed

end
